theory Spec2Isabelle
  imports Main
begin

section \<open>Values exchanged with the accelerator runtime\<close>

text \<open>
  The module \<^verbatim>\<open>torchft/utils.py\<close> holds three functions that dispatch on
  \<^verbatim>\<open>stream.device.type\<close> and forward to the accelerator runtime (\<^verbatim>\<open>torch.cuda\<close>,
  \<^verbatim>\<open>torch.xpu\<close>, \<^verbatim>\<open>torch.accelerator\<close>). A stream handle carries its device, and the
  device carries the type tag the code compares with \<^verbatim>\<open>"cuda"\<close> and \<^verbatim>\<open>"xpu"\<close>.
\<close>

type_synonym exn = string

record device =
  type' :: string
  index :: int

record stream =
  device :: device
  stream_id :: int

text \<open>
  An event object remembers which constructor built it, the \<^verbatim>\<open>interprocess\<close> flag
  where the constructor takes one, and the identity of the object.
\<close>

datatype event =
    CudaEvent (interprocess: bool) (event_id: nat)
  | XpuEvent (event_id: nat)

text \<open>
  The three context managers the module can hand out: \<^verbatim>\<open>contextlib.nullcontext()\<close>,
  \<^verbatim>\<open>torch.cuda.stream(s)\<close> and \<^verbatim>\<open>torch.xpu.stream(s)\<close>.
\<close>

datatype "context" =
    NullContext
  | CudaStreamContext stream
  | XpuStreamContext stream

text \<open>
  Every entry point of the runtime that the module calls, with the stream it is called
  on or with. The event handed to \<^verbatim>\<open>record_event\<close> is kept with the stream in the
  runtime's list of recorded events.
\<close>

datatype call =
    CudaIsAvailable
  | XpuIsAvailable
  | AcceleratorIsAvailable
  | AcceleratorCurrentStream
  | CudaStream stream
  | XpuStream stream
  | NewCudaEvent bool
  | NewXpuEvent
  | StreamRecordEvent stream
  | StreamSynchronize stream

section \<open>The accelerator runtime\<close>

text \<open>
  Modelled from the spec: the accelerator runtime is an external collaborator of the
  module (section 6 of the specification) and its code is not part of the repository.
  The state below holds what the runtime answers (the three availability flags, the
  current stream, and for every call whether it raises), what it has been asked
  (\<open>calls\<close>, in order), and what the calls have done: the events recorded on streams, the
  streams synchronised, the allocator of event objects, and the history of changes of
  the current stream made by scoped contexts.
\<close>

record runtime =
  cuda_available :: bool
  xpu_available :: bool
  accelerator_available :: bool
  current :: stream
  faults :: "call \<Rightarrow> exn option"
  calls :: "call list"
  next_event :: nat
  recorded :: "(stream \<times> event) list"
  synchronized :: "stream list"
  switches :: "stream list"

text \<open>
  A computation over the runtime either raises (\<open>Inl\<close>) or returns (\<open>Inr\<close>), and leaves
  the runtime in a new state. The module has no \<^verbatim>\<open>try\<close> statement, so sequencing stops at
  the first exception and hands it on.
\<close>

type_synonym 'a rt = "runtime \<Rightarrow> (exn + 'a) \<times> runtime"

definition ret :: "'a \<Rightarrow> 'a rt" where
  "ret v rt = (Inr v, rt)"

definition rt_bind :: "'a rt \<Rightarrow> ('a \<Rightarrow> 'b rt) \<Rightarrow> 'b rt" where
  "rt_bind m f rt = (case m rt of (Inl e, rt') \<Rightarrow> (Inl e, rt') | (Inr v, rt') \<Rightarrow> f v rt')"

text \<open>
  Modelled from the spec: one call into the runtime. The call is logged; if the runtime
  raises on it the exception comes back and nothing else happens, otherwise the call
  returns \<open>v\<close> and has the effect \<open>upd\<close>.
\<close>

definition runtime_call :: "call \<Rightarrow> 'a \<Rightarrow> (runtime \<Rightarrow> runtime) \<Rightarrow> 'a rt" where
  "runtime_call c v upd rt =
     (let rt' = rt\<lparr>calls := calls rt @ [c]\<rparr>
      in case faults rt c of
           Some e \<Rightarrow> (Inl e, rt')
         | None \<Rightarrow> (Inr v, upd rt'))"

text \<open>Modelled from the spec: \<^verbatim>\<open>torch.cuda.is_available()\<close>.\<close>

definition cuda_is_available :: "bool rt" where
  "cuda_is_available rt = runtime_call CudaIsAvailable (cuda_available rt) id rt"

text \<open>Modelled from the spec: \<^verbatim>\<open>torch.xpu.is_available()\<close>.\<close>

definition xpu_is_available :: "bool rt" where
  "xpu_is_available rt = runtime_call XpuIsAvailable (xpu_available rt) id rt"

text \<open>Modelled from the spec: \<^verbatim>\<open>torch.accelerator.is_available()\<close>.\<close>

definition accelerator_is_available :: "bool rt" where
  "accelerator_is_available rt =
     runtime_call AcceleratorIsAvailable (accelerator_available rt) id rt"

text \<open>Modelled from the spec: \<^verbatim>\<open>torch.accelerator.current_stream()\<close>.\<close>

definition accelerator_current_stream :: "stream rt" where
  "accelerator_current_stream rt = runtime_call AcceleratorCurrentStream (current rt) id rt"

text \<open>Modelled from the spec: \<^verbatim>\<open>torch.cuda.stream(s)\<close>, which builds the context object.\<close>

definition cuda_stream :: "stream \<Rightarrow> context rt" where
  "cuda_stream s = runtime_call (CudaStream s) (CudaStreamContext s) id"

text \<open>Modelled from the spec: \<^verbatim>\<open>torch.xpu.stream(s)\<close>.\<close>

definition xpu_stream :: "stream \<Rightarrow> context rt" where
  "xpu_stream s = runtime_call (XpuStream s) (XpuStreamContext s) id"

text \<open>
  Modelled from the spec: the constructor \<^verbatim>\<open>torch.cuda.Event(interprocess=ip)\<close>. A
  constructor call allocates a new object: it takes the next free identity and advances
  the allocator.
\<close>

definition cuda_Event :: "bool \<Rightarrow> event rt" where
  "cuda_Event ip rt =
     runtime_call (NewCudaEvent ip) (CudaEvent ip (next_event rt))
       (\<lambda>r. r\<lparr>next_event := Suc (next_event r)\<rparr>) rt"

text \<open>
  Modelled from the spec: the constructor \<^verbatim>\<open>torch.xpu.Event()\<close>, which allocates in the
  same way.
\<close>

definition xpu_Event :: "event rt" where
  "xpu_Event rt =
     runtime_call NewXpuEvent (XpuEvent (next_event rt))
       (\<lambda>r. r\<lparr>next_event := Suc (next_event r)\<rparr>) rt"

text \<open>
  Modelled from the spec: \<^verbatim>\<open>stream.record_event(event)\<close>, which records the event on the
  stream and returns it.
\<close>

definition stream_record_event :: "stream \<Rightarrow> event \<Rightarrow> event rt" where
  "stream_record_event s e =
     runtime_call (StreamRecordEvent s) e (\<lambda>r. r\<lparr>recorded := recorded r @ [(s, e)]\<rparr>)"

text \<open>
  Modelled from the spec: \<^verbatim>\<open>stream.synchronize()\<close>, which waits for the work submitted
  to the stream; the runtime keeps the list of the streams waited for.
\<close>

definition stream_synchronize :: "stream \<Rightarrow> unit rt" where
  "stream_synchronize s =
     runtime_call (StreamSynchronize s) () (\<lambda>r. r\<lparr>synchronized := synchronized r @ [s]\<rparr>)"

text \<open>
  Modelled from the spec: an event is cross-process capable when it was built with
  \<^verbatim>\<open>interprocess=True\<close>; the XPU constructor has no such flag and its events are
  process-local.
\<close>

fun cross_process :: "event \<Rightarrow> bool" where
  "cross_process (CudaEvent ip _) = ip"
| "cross_process (XpuEvent _) = False"

text \<open>\<^verbatim>\<open>contextlib.nullcontext()\<close>: a constructor of the standard library, no runtime call.\<close>

definition nullcontext :: "context rt" where
  "nullcontext = ret NullContext"

text \<open>Python's \<^verbatim>\<open>a and b()\<close>: the right operand is evaluated only when the left is true.\<close>

definition py_and :: "bool \<Rightarrow> bool rt \<Rightarrow> bool rt" where
  "py_and a b = (if a then b else ret False)"

section \<open>The three functions of the module\<close>

text \<open>
  \<^verbatim>\<open>
  def get_stream_context(stream):
      if stream is not None:
          device_type = stream.device.type
          if device_type == "cuda" and torch.cuda.is_available():
              return torch.cuda.stream(stream)
          elif device_type == "xpu" and torch.xpu.is_available():
              return torch.xpu.stream(stream)
          else:
              return nullcontext()
      else:
          return nullcontext()
  \<close>
\<close>

definition get_stream_context :: "stream option \<Rightarrow> context rt" where
  "get_stream_context stream =
     (case stream of
        Some s \<Rightarrow>
          (let device_type = type' (device s)
           in rt_bind (py_and (device_type = ''cuda'') cuda_is_available) (\<lambda>c.
                if c then cuda_stream s
                else rt_bind (py_and (device_type = ''xpu'') xpu_is_available) (\<lambda>x.
                  if x then xpu_stream s
                  else nullcontext)))
      | None \<Rightarrow> nullcontext)"

text \<open>
  \<^verbatim>\<open>
  def record_event():
      if torch.accelerator.is_available():
          stream = torch.accelerator.current_stream()
          if stream.device.type == "cuda":
              stream.record_event(torch.cuda.Event(interprocess=True))
          elif stream.device.type == "xpu":
              stream.record_event(torch.xpu.Event())
          else:
              pass
  \<close>
  The value of \<^verbatim>\<open>stream.record_event\<close> is dropped and the function returns \<^verbatim>\<open>None\<close>.
\<close>

definition record_event :: "unit rt" where
  "record_event =
     rt_bind accelerator_is_available (\<lambda>a.
       if a then
         rt_bind accelerator_current_stream (\<lambda>stream.
           if type' (device stream) = ''cuda'' then
             rt_bind (cuda_Event True) (\<lambda>e.
               rt_bind (stream_record_event stream e) (\<lambda>_. ret ()))
           else if type' (device stream) = ''xpu'' then
             rt_bind xpu_Event (\<lambda>e.
               rt_bind (stream_record_event stream e) (\<lambda>_. ret ()))
           else ret ())
       else ret ())"

text \<open>
  \<^verbatim>\<open>
  def synchronize():
      if torch.accelerator.is_available():
          torch.accelerator.current_stream().synchronize()
  \<close>
\<close>

definition synchronize :: "unit rt" where
  "synchronize =
     rt_bind accelerator_is_available (\<lambda>a.
       if a then rt_bind accelerator_current_stream (\<lambda>stream. stream_synchronize stream)
       else ret ())"

section \<open>Scoped contexts\<close>

text \<open>
  Entering and leaving a context is code of the runtime and of the standard library,
  not of the repository. Section 3 of the specification: a scoped context, "when
  entered, makes the referenced stream the implicit target for subsequent asynchronous
  operations, and on exit restores the previous implicit target"; section 9: the no-op
  context has empty enter and exit.
\<close>

text \<open>
  Modelled from the spec: the runtime's switch of the implicit target (the current
  stream); the runtime keeps the history of the switches.
\<close>

definition set_current :: "stream \<Rightarrow> runtime \<Rightarrow> runtime" where
  "set_current s rt = rt\<lparr>current := s, switches := switches rt @ [s]\<rparr>"

text \<open>
  Modelled from the spec: entering a context. A stream context makes its stream the
  current one and hands back the stream that was current, which the context object
  keeps until it is left; the no-op context does nothing.
\<close>

fun ctx_enter :: "context \<Rightarrow> runtime \<Rightarrow> stream option \<times> runtime" where
  "ctx_enter NullContext rt = (None, rt)"
| "ctx_enter (CudaStreamContext s) rt = (Some (current rt), set_current s rt)"
| "ctx_enter (XpuStreamContext s) rt = (Some (current rt), set_current s rt)"

text \<open>
  Modelled from the spec: leaving a context, given what entering it handed back: the
  saved stream is made current again; the no-op context does nothing.
\<close>

fun ctx_exit :: "stream option \<Rightarrow> runtime \<Rightarrow> runtime" where
  "ctx_exit None rt = rt"
| "ctx_exit (Some prev) rt = set_current prev rt"

text \<open>
  Modelled from the spec: Python's \<^verbatim>\<open>with ctx: body\<close>. The context is entered, the body
  runs, and the context is left whether the body returned or raised; none of the three
  contexts swallows the exception, so the outcome of the statement is the body's.
\<close>

definition with_scope :: "context \<Rightarrow> 'a rt \<Rightarrow> 'a rt" where
  "with_scope ctx body rt =
     (case ctx_enter ctx rt of (saved, rt1) \<Rightarrow>
        (case body rt1 of (r, rt2) \<Rightarrow> (r, ctx_exit saved rt2)))"

section \<open>Observing a call of the module\<close>

text \<open>The runtime calls made between two states of the runtime.\<close>

definition new_calls :: "runtime \<Rightarrow> runtime \<Rightarrow> call list" where
  "new_calls rt rt' = drop (length (calls rt)) (calls rt')"

text \<open>
  An outcome hands on what the runtime raised: the log has only grown, no call but the
  last one made has raised, an exception is the one the runtime raised on the last call
  made, and a normal return means that no call raised.
\<close>

definition propagates :: "runtime \<Rightarrow> (exn + 'a) \<times> runtime \<Rightarrow> bool" where
  "propagates rt out =
     (let cs = new_calls rt (snd out)
      in calls (snd out) = calls rt @ cs
         \<and> list_all (\<lambda>c. faults rt c = None) (butlast cs)
         \<and> (case fst out of
               Inl e \<Rightarrow> cs \<noteq> [] \<and> faults rt (last cs) = Some e
             | Inr _ \<Rightarrow> list_all (\<lambda>c. faults rt c = None) cs))"

text \<open>A caller's use of the module: any sequence of calls of the three functions.\<close>

datatype op = GetStreamContext "stream option" | RecordEvent | Synchronize

datatype outcome = Context "context" | NoValue

fun run_op :: "op \<Rightarrow> outcome rt" where
  "run_op (GetStreamContext inp) = rt_bind (get_stream_context inp) (\<lambda>c. ret (Context c))"
| "run_op RecordEvent = rt_bind record_event (\<lambda>_. ret NoValue)"
| "run_op Synchronize = rt_bind synchronize (\<lambda>_. ret NoValue)"

fun run_ops :: "op list \<Rightarrow> runtime \<Rightarrow> runtime" where
  "run_ops [] rt = rt"
| "run_ops (p # ps) rt = run_ops ps (snd (run_op p rt))"

text \<open>Two states in which the runtime gives the same answers to the module.\<close>

definition same_answers :: "runtime \<Rightarrow> runtime \<Rightarrow> bool" where
  "same_answers rt rt' =
     (cuda_available rt' = cuda_available rt \<and> xpu_available rt' = xpu_available rt
      \<and> accelerator_available rt' = accelerator_available rt
      \<and> current rt' = current rt \<and> faults rt' = faults rt)"

text \<open>Every recorded event came from the allocator.\<close>

definition allocated :: "runtime \<Rightarrow> bool" where
  "allocated rt = list_all (\<lambda>(s, e). event_id e < next_event rt) (recorded rt)"

section \<open>Example hosts\<close>

definition cuda0 :: stream where
  "cuda0 = \<lparr>device = \<lparr>type' = ''cuda'', index = 0\<rparr>, stream_id = 1\<rparr>"

definition xpu0 :: stream where
  "xpu0 = \<lparr>device = \<lparr>type' = ''xpu'', index = 0\<rparr>, stream_id = 2\<rparr>"

definition mps0 :: stream where
  "mps0 = \<lparr>device = \<lparr>type' = ''mps'', index = 0\<rparr>, stream_id = 3\<rparr>"

text \<open>
  A host whose runtime never raises: the three availability answers and the current
  stream are given, nothing has happened yet.
\<close>

definition host :: "bool \<Rightarrow> bool \<Rightarrow> bool \<Rightarrow> stream \<Rightarrow> runtime" where
  "host c x a s =
     \<lparr>cuda_available = c, xpu_available = x, accelerator_available = a, current = s,
      faults = (\<lambda>_. None), calls = [], next_event = 0, recorded = [], synchronized = [],
      switches = []\<rparr>"

text \<open>A host whose runtime raises on exactly one call.\<close>

definition failing :: "call \<Rightarrow> exn \<Rightarrow> runtime \<Rightarrow> runtime" where
  "failing c e rt = rt\<lparr>faults := (\<lambda>c'. if c' = c then Some e else None)\<rparr>"

text \<open>A body of a scope that moves the current stream and then raises.\<close>

definition switching_body :: "stream \<Rightarrow> unit rt" where
  "switching_body s rt = (Inl ''boom'', set_current s rt)"

section \<open>Evaluation rules\<close>

text \<open>
  Each function of the module, unfolded along the calls it makes: every branch names
  the calls made up to that point and the state the runtime is left in.
\<close>

lemma get_stream_context_run:
  "get_stream_context inp rt =
     (case inp of
        None \<Rightarrow> (Inr NullContext, rt)
      | Some s \<Rightarrow>
          if type' (device s) = ''cuda'' then
            (case faults rt CudaIsAvailable of
               Some e \<Rightarrow> (Inl e, rt\<lparr>calls := calls rt @ [CudaIsAvailable]\<rparr>)
             | None \<Rightarrow>
                 if cuda_available rt then
                   (case faults rt (CudaStream s) of
                      Some e \<Rightarrow>
                        (Inl e, rt\<lparr>calls := calls rt @ [CudaIsAvailable, CudaStream s]\<rparr>)
                    | None \<Rightarrow>
                        (Inr (CudaStreamContext s),
                         rt\<lparr>calls := calls rt @ [CudaIsAvailable, CudaStream s]\<rparr>))
                 else (Inr NullContext, rt\<lparr>calls := calls rt @ [CudaIsAvailable]\<rparr>))
          else if type' (device s) = ''xpu'' then
            (case faults rt XpuIsAvailable of
               Some e \<Rightarrow> (Inl e, rt\<lparr>calls := calls rt @ [XpuIsAvailable]\<rparr>)
             | None \<Rightarrow>
                 if xpu_available rt then
                   (case faults rt (XpuStream s) of
                      Some e \<Rightarrow>
                        (Inl e, rt\<lparr>calls := calls rt @ [XpuIsAvailable, XpuStream s]\<rparr>)
                    | None \<Rightarrow>
                        (Inr (XpuStreamContext s),
                         rt\<lparr>calls := calls rt @ [XpuIsAvailable, XpuStream s]\<rparr>))
                 else (Inr NullContext, rt\<lparr>calls := calls rt @ [XpuIsAvailable]\<rparr>))
          else (Inr NullContext, rt))"
  by (simp add: get_stream_context_def py_and_def rt_bind_def ret_def nullcontext_def
        cuda_is_available_def xpu_is_available_def cuda_stream_def xpu_stream_def
        runtime_call_def Let_def split: option.split)

lemma record_event_run:
  "record_event rt =
     (case faults rt AcceleratorIsAvailable of
        Some e \<Rightarrow> (Inl e, rt\<lparr>calls := calls rt @ [AcceleratorIsAvailable]\<rparr>)
      | None \<Rightarrow>
          if accelerator_available rt then
            (case faults rt AcceleratorCurrentStream of
               Some e \<Rightarrow>
                 (Inl e,
                  rt\<lparr>calls := calls rt @ [AcceleratorIsAvailable, AcceleratorCurrentStream]\<rparr>)
             | None \<Rightarrow>
                 if type' (device (current rt)) = ''cuda'' then
                   (case faults rt (NewCudaEvent True) of
                      Some e \<Rightarrow>
                        (Inl e, rt\<lparr>calls := calls rt @ [AcceleratorIsAvailable,
                           AcceleratorCurrentStream, NewCudaEvent True]\<rparr>)
                    | None \<Rightarrow>
                        (case faults rt (StreamRecordEvent (current rt)) of
                           Some e \<Rightarrow>
                             (Inl e, rt\<lparr>calls := calls rt @ [AcceleratorIsAvailable,
                                AcceleratorCurrentStream, NewCudaEvent True,
                                StreamRecordEvent (current rt)],
                                next_event := Suc (next_event rt)\<rparr>)
                         | None \<Rightarrow>
                             (Inr (), rt\<lparr>calls := calls rt @ [AcceleratorIsAvailable,
                                AcceleratorCurrentStream, NewCudaEvent True,
                                StreamRecordEvent (current rt)],
                                next_event := Suc (next_event rt),
                                recorded := recorded rt
                                  @ [(current rt, CudaEvent True (next_event rt))]\<rparr>)))
                 else if type' (device (current rt)) = ''xpu'' then
                   (case faults rt NewXpuEvent of
                      Some e \<Rightarrow>
                        (Inl e, rt\<lparr>calls := calls rt @ [AcceleratorIsAvailable,
                           AcceleratorCurrentStream, NewXpuEvent]\<rparr>)
                    | None \<Rightarrow>
                        (case faults rt (StreamRecordEvent (current rt)) of
                           Some e \<Rightarrow>
                             (Inl e, rt\<lparr>calls := calls rt @ [AcceleratorIsAvailable,
                                AcceleratorCurrentStream, NewXpuEvent,
                                StreamRecordEvent (current rt)],
                                next_event := Suc (next_event rt)\<rparr>)
                         | None \<Rightarrow>
                             (Inr (), rt\<lparr>calls := calls rt @ [AcceleratorIsAvailable,
                                AcceleratorCurrentStream, NewXpuEvent,
                                StreamRecordEvent (current rt)],
                                next_event := Suc (next_event rt),
                                recorded := recorded rt
                                  @ [(current rt, XpuEvent (next_event rt))]\<rparr>)))
                 else (Inr (), rt\<lparr>calls := calls rt @ [AcceleratorIsAvailable,
                         AcceleratorCurrentStream]\<rparr>))
          else (Inr (), rt\<lparr>calls := calls rt @ [AcceleratorIsAvailable]\<rparr>))"
  by (simp add: record_event_def rt_bind_def ret_def accelerator_is_available_def
        accelerator_current_stream_def cuda_Event_def xpu_Event_def stream_record_event_def
        runtime_call_def Let_def split: option.split)

lemma synchronize_run:
  "synchronize rt =
     (case faults rt AcceleratorIsAvailable of
        Some e \<Rightarrow> (Inl e, rt\<lparr>calls := calls rt @ [AcceleratorIsAvailable]\<rparr>)
      | None \<Rightarrow>
          if accelerator_available rt then
            (case faults rt AcceleratorCurrentStream of
               Some e \<Rightarrow>
                 (Inl e,
                  rt\<lparr>calls := calls rt @ [AcceleratorIsAvailable, AcceleratorCurrentStream]\<rparr>)
             | None \<Rightarrow>
                 (case faults rt (StreamSynchronize (current rt)) of
                    Some e \<Rightarrow>
                      (Inl e, rt\<lparr>calls := calls rt @ [AcceleratorIsAvailable,
                         AcceleratorCurrentStream, StreamSynchronize (current rt)]\<rparr>)
                  | None \<Rightarrow>
                      (Inr (), rt\<lparr>calls := calls rt @ [AcceleratorIsAvailable,
                         AcceleratorCurrentStream, StreamSynchronize (current rt)],
                         synchronized := synchronized rt @ [current rt]\<rparr>)))
          else (Inr (), rt\<lparr>calls := calls rt @ [AcceleratorIsAvailable]\<rparr>))"
  by (simp add: synchronize_def rt_bind_def ret_def accelerator_is_available_def
        accelerator_current_stream_def stream_synchronize_def runtime_call_def Let_def
        split: option.split)

text \<open>What an availability query that returned tells about the runtime.\<close>

lemma cuda_is_available_reports:
  "fst (cuda_is_available rt) = Inr b \<Longrightarrow>
     faults rt CudaIsAvailable = None \<and> cuda_available rt = b"
  by (auto simp: cuda_is_available_def runtime_call_def Let_def split: option.splits)

lemma xpu_is_available_reports:
  "fst (xpu_is_available rt) = Inr b \<Longrightarrow>
     faults rt XpuIsAvailable = None \<and> xpu_available rt = b"
  by (auto simp: xpu_is_available_def runtime_call_def Let_def split: option.splits)

lemma accelerator_is_available_reports:
  "fst (accelerator_is_available rt) = Inr b \<Longrightarrow>
     faults rt AcceleratorIsAvailable = None \<and> accelerator_available rt = b"
  by (auto simp: accelerator_is_available_def runtime_call_def Let_def split: option.splits)

lemma host_simps:
  "cuda_available (host c x a s) = c" "xpu_available (host c x a s) = x"
  "accelerator_available (host c x a s) = a" "current (host c x a s) = s"
  "faults (host c x a s) k = None" "calls (host c x a s) = []"
  "next_event (host c x a s) = 0" "recorded (host c x a s) = []"
  "synchronized (host c x a s) = []" "switches (host c x a s) = []"
  by (simp_all add: host_def)

lemma stream_simps:
  "type' (device cuda0) = ''cuda''" "type' (device xpu0) = ''xpu''"
  "type' (device mps0) = ''mps''"
  by (simp_all add: cuda0_def xpu0_def mps0_def)

section \<open>The context for a given stream\<close>

text \<open>
  C1. For every stream whose device type is \<^verbatim>\<open>"cuda"\<close>, in every state of the runtime in
  which \<^verbatim>\<open>torch.cuda.is_available()\<close> returns \<open>True\<close>, the outcome of
  \<^verbatim>\<open>get_stream_context(stream)\<close> is the outcome of the runtime's \<^verbatim>\<open>torch.cuda.stream(stream)\<close>,
  called right after the query; where that call returns, the value is the CUDA stream
  context wrapping exactly the given stream. The same holds for a stream of type
  \<^verbatim>\<open>"xpu"\<close> with \<^verbatim>\<open>torch.xpu.is_available()\<close> and \<^verbatim>\<open>torch.xpu.stream(stream)\<close>.
\<close>

theorem get_stream_context_native:
  "(type' (device s) = ''cuda'' \<and> cuda_is_available rt = (Inr True, rt1)
      \<longrightarrow> get_stream_context (Some s) rt = cuda_stream s rt1
          \<and> (faults rt1 (CudaStream s) = None
               \<longrightarrow> fst (get_stream_context (Some s) rt) = Inr (CudaStreamContext s)))
   \<and> (type' (device s') = ''xpu'' \<and> xpu_is_available rt' = (Inr True, rt2)
      \<longrightarrow> get_stream_context (Some s') rt' = xpu_stream s' rt2
          \<and> (faults rt2 (XpuStream s') = None
               \<longrightarrow> fst (get_stream_context (Some s') rt') = Inr (XpuStreamContext s')))"
  by (simp add: get_stream_context_def Let_def py_and_def rt_bind_def ret_def
        cuda_stream_def xpu_stream_def runtime_call_def)

theorem get_stream_context_native_witness:
  "cuda_is_available (host True False True cuda0)
     = (Inr True, (host True False True cuda0)\<lparr>calls := [CudaIsAvailable]\<rparr>)
   \<and> get_stream_context (Some cuda0) (host True False True cuda0)
     = (Inr (CudaStreamContext cuda0),
        (host True False True cuda0)\<lparr>calls := [CudaIsAvailable, CudaStream cuda0]\<rparr>)
   \<and> xpu_is_available (host False True True xpu0)
     = (Inr True, (host False True True xpu0)\<lparr>calls := [XpuIsAvailable]\<rparr>)
   \<and> get_stream_context (Some xpu0) (host False True True xpu0)
     = (Inr (XpuStreamContext xpu0),
        (host False True True xpu0)\<lparr>calls := [XpuIsAvailable, XpuStream xpu0]\<rparr>)"
  using get_stream_context_native [of cuda0 "host True False True cuda0"
      "(host True False True cuda0)\<lparr>calls := [CudaIsAvailable]\<rparr>"
      xpu0 "host False True True xpu0"
      "(host False True True xpu0)\<lparr>calls := [XpuIsAvailable]\<rparr>"]
  by (simp add: host_simps stream_simps cuda_is_available_def xpu_is_available_def
        cuda_stream_def xpu_stream_def runtime_call_def Let_def)

text \<open>
  C2. For every given stream whose device type is neither \<^verbatim>\<open>"cuda"\<close> nor \<^verbatim>\<open>"xpu"\<close>, or is
  \<^verbatim>\<open>"cuda"\<close> while \<^verbatim>\<open>torch.cuda.is_available()\<close> returns \<open>False\<close>, or is \<^verbatim>\<open>"xpu"\<close> while
  \<^verbatim>\<open>torch.xpu.is_available()\<close> returns \<open>False\<close>, \<^verbatim>\<open>get_stream_context\<close> returns the no-op
  context, the very value it returns for \<^verbatim>\<open>None\<close> (in whatever state), and the runtime has
  seen at most the one availability query of the stream's family.
\<close>

theorem get_stream_context_fallback:
  "(type' (device s) \<noteq> ''cuda'' \<and> type' (device s) \<noteq> ''xpu'')
   \<or> (type' (device s) = ''cuda'' \<and> fst (cuda_is_available rt) = Inr False)
   \<or> (type' (device s) = ''xpu'' \<and> fst (xpu_is_available rt) = Inr False)
   \<Longrightarrow> get_stream_context (Some s) rt
         = (Inr NullContext,
            rt\<lparr>calls := calls rt @
                 (if type' (device s) = ''cuda'' then [CudaIsAvailable]
                  else if type' (device s) = ''xpu'' then [XpuIsAvailable]
                  else [])\<rparr>)
       \<and> fst (get_stream_context (Some s) rt) = fst (get_stream_context None rt')"
  by (auto simp: get_stream_context_run
        dest!: cuda_is_available_reports xpu_is_available_reports)

theorem get_stream_context_fallback_witness:
  "get_stream_context (Some mps0) (host True True True mps0)
     = (Inr NullContext, host True True True mps0)
   \<and> get_stream_context (Some cuda0) (host False True True cuda0)
       = (Inr NullContext, (host False True True cuda0)\<lparr>calls := [CudaIsAvailable]\<rparr>)
   \<and> get_stream_context (Some xpu0) (host True False True xpu0)
       = (Inr NullContext, (host True False True xpu0)\<lparr>calls := [XpuIsAvailable]\<rparr>)"
  using get_stream_context_fallback [of mps0 "host True True True mps0" "host True True True mps0"]
    get_stream_context_fallback [of cuda0 "host False True True cuda0" "host True True True mps0"]
    get_stream_context_fallback [of xpu0 "host True False True xpu0" "host True True True mps0"]
  by (simp add: host_simps stream_simps cuda_is_available_def xpu_is_available_def
        runtime_call_def Let_def)

text \<open>
  C5. For every call \<^verbatim>\<open>get_stream_context(None)\<close>, in whatever state the runtime is, the
  function returns the no-op context and leaves the runtime untouched (not even the log
  of calls grows), and entering and then leaving that context leaves the runtime exactly
  as it was, so that a scope under it is its body and nothing more.
\<close>

theorem get_stream_context_None:
  "get_stream_context None rt = (Inr NullContext, rt)
   \<and> ctx_enter NullContext rt = (None, rt)
   \<and> ctx_exit (fst (ctx_enter NullContext rt)) (snd (ctx_enter NullContext rt)) = rt
   \<and> with_scope NullContext body rt = body rt"
  by (simp add: get_stream_context_def nullcontext_def ret_def with_scope_def
        split: prod.splits)

section \<open>Recording an event and synchronising\<close>

text \<open>
  C3. For every call of \<^verbatim>\<open>record_event\<close> in a state where the availability query returns
  \<open>True\<close> and none of the calls the function goes on to make raises (the runtime may
  raise on any other call): the function asks for the current stream; if the device
  type of that stream is \<^verbatim>\<open>"cuda"\<close> it constructs a new event with \<^verbatim>\<open>interprocess=True\<close>
  (a cross-process capable one) and records it on that stream; if it is \<^verbatim>\<open>"xpu"\<close> it
  constructs a new XPU event (a process-local one) and records it on that stream; for
  any other device type it does nothing more; in every case it returns no value.
\<close>

theorem record_event_dispatch:
  assumes "fst (accelerator_is_available rt) = Inr True"
    and "faults rt AcceleratorCurrentStream = None"
    and "type' (device (current rt)) = ''cuda'' \<longrightarrow>
           faults rt (NewCudaEvent True) = None
           \<and> faults rt (StreamRecordEvent (current rt)) = None"
    and "type' (device (current rt)) = ''xpu'' \<longrightarrow>
           faults rt NewXpuEvent = None
           \<and> faults rt (StreamRecordEvent (current rt)) = None"
  shows "record_event rt =
     (Inr (),
      if type' (device (current rt)) = ''cuda'' then
        rt\<lparr>calls := calls rt @ [AcceleratorIsAvailable, AcceleratorCurrentStream,
                NewCudaEvent True, StreamRecordEvent (current rt)],
           next_event := Suc (next_event rt),
           recorded := recorded rt @ [(current rt, CudaEvent True (next_event rt))]\<rparr>
      else if type' (device (current rt)) = ''xpu'' then
        rt\<lparr>calls := calls rt @ [AcceleratorIsAvailable, AcceleratorCurrentStream,
                NewXpuEvent, StreamRecordEvent (current rt)],
           next_event := Suc (next_event rt),
           recorded := recorded rt @ [(current rt, XpuEvent (next_event rt))]\<rparr>
      else rt\<lparr>calls := calls rt @ [AcceleratorIsAvailable, AcceleratorCurrentStream]\<rparr>)
    \<and> cross_process (CudaEvent True (next_event rt))
    \<and> \<not> cross_process (XpuEvent (next_event rt))"
  using accelerator_is_available_reports [OF assms(1)] assms(2-4)
  by (simp add: record_event_run)

theorem record_event_dispatch_witness:
  "fst (accelerator_is_available (failing NewXpuEvent ''no xpu'' (host True False True cuda0)))
     = Inr True
   \<and> faults (failing NewXpuEvent ''no xpu'' (host True False True cuda0)) NewXpuEvent
     = Some ''no xpu''
   \<and> recorded (snd (record_event (failing NewXpuEvent ''no xpu'' (host True False True cuda0))))
     = [(cuda0, CudaEvent True 0)]
   \<and> recorded (snd (record_event (host False True True xpu0))) = [(xpu0, XpuEvent 0)]
   \<and> record_event (failing (StreamRecordEvent mps0) ''no mps'' (host False False True mps0))
       = (Inr (), (failing (StreamRecordEvent mps0) ''no mps'' (host False False True mps0))
                    \<lparr>calls := [AcceleratorIsAvailable, AcceleratorCurrentStream]\<rparr>)"
  using record_event_dispatch [of "failing NewXpuEvent ''no xpu'' (host True False True cuda0)"]
    record_event_dispatch [of "host False True True xpu0"]
    record_event_dispatch
      [of "failing (StreamRecordEvent mps0) ''no mps'' (host False False True mps0)"]
  by (simp add: failing_def host_simps stream_simps accelerator_is_available_def
        runtime_call_def Let_def)

text \<open>
  C4, counterexample. \<^verbatim>\<open>synchronize\<close> does not return "without any runtime call" when no
  accelerator is available: its first statement is the runtime call
  \<^verbatim>\<open>torch.accelerator.is_available()\<close>. On a host without accelerator, whose log of
  runtime calls is empty, the log holds that query after the function has returned.
\<close>

theorem synchronize_unavailable_queries_runtime:
  "fst (accelerator_is_available (host False False False mps0)) = Inr False
   \<and> calls (host False False False mps0) = []
   \<and> calls (snd (synchronize (host False False False mps0))) = [AcceleratorIsAvailable]"
  by (simp add: synchronize_run host_simps accelerator_is_available_def runtime_call_def
        Let_def)

text \<open>
  C4, amended. For every call of \<^verbatim>\<open>synchronize\<close>: when the availability query returns
  \<open>True\<close> and neither of the two calls that follow raises (the runtime may raise on any
  other call), the function asks for the current stream and calls that stream's
  \<^verbatim>\<open>synchronize\<close> exactly once, which is its only effect; when the query returns \<open>False\<close>,
  the function returns at once, and the availability query is the only runtime call it
  has made.
\<close>

theorem synchronize_behaviour:
  "(fst (accelerator_is_available rt) = Inr True
      \<and> faults rt AcceleratorCurrentStream = None
      \<and> faults rt (StreamSynchronize (current rt)) = None
      \<longrightarrow> synchronize rt =
           (Inr (), rt\<lparr>calls := calls rt @ [AcceleratorIsAvailable, AcceleratorCurrentStream,
                                  StreamSynchronize (current rt)],
                       synchronized := synchronized rt @ [current rt]\<rparr>))
   \<and> (fst (accelerator_is_available rt') = Inr False
      \<longrightarrow> synchronize rt' = (Inr (), rt'\<lparr>calls := calls rt' @ [AcceleratorIsAvailable]\<rparr>))"
  by (auto simp: synchronize_run dest!: accelerator_is_available_reports)

theorem synchronize_behaviour_witness:
  "faults (failing NewXpuEvent ''no xpu'' (host True False True cuda0)) NewXpuEvent
     = Some ''no xpu''
   \<and> synchronize (failing NewXpuEvent ''no xpu'' (host True False True cuda0))
     = (Inr (), (failing NewXpuEvent ''no xpu'' (host True False True cuda0))
                  \<lparr>calls := [AcceleratorIsAvailable, AcceleratorCurrentStream,
                             StreamSynchronize cuda0],
                   synchronized := [cuda0]\<rparr>)
   \<and> synchronize (host False False False mps0)
     = (Inr (), (host False False False mps0)\<lparr>calls := [AcceleratorIsAvailable]\<rparr>)"
  using synchronize_behaviour [of "failing NewXpuEvent ''no xpu'' (host True False True cuda0)"
      "host False False False mps0"]
  by (simp add: failing_def host_simps accelerator_is_available_def runtime_call_def Let_def)

text \<open>
  C6. Whenever the runtime reports that no accelerator is available, \<^verbatim>\<open>record_event()\<close> and
  \<^verbatim>\<open>synchronize()\<close> both return normally, without exception, and the runtime is as it was
  but for the log entry of the query: no event is allocated or recorded, no stream is
  synchronised, the current stream is not changed.
\<close>

theorem unavailable_noop:
  assumes "fst (accelerator_is_available rt) = Inr False"
  shows "record_event rt = (Inr (), rt\<lparr>calls := calls rt @ [AcceleratorIsAvailable]\<rparr>)
       \<and> synchronize rt = (Inr (), rt\<lparr>calls := calls rt @ [AcceleratorIsAvailable]\<rparr>)
       \<and> recorded (snd (record_event rt)) = recorded rt
       \<and> next_event (snd (record_event rt)) = next_event rt
       \<and> synchronized (snd (synchronize rt)) = synchronized rt
       \<and> current (snd (record_event rt)) = current rt
       \<and> current (snd (synchronize rt)) = current rt"
  using accelerator_is_available_reports [OF assms]
  by (simp add: record_event_run synchronize_run)

theorem unavailable_noop_witness:
  "fst (accelerator_is_available (host False False False mps0)) = Inr False
   \<and> fst (record_event (host False False False mps0)) = Inr ()
   \<and> fst (synchronize (host False False False mps0)) = Inr ()
   \<and> recorded (snd (record_event (host False False False mps0))) = []
   \<and> synchronized (snd (synchronize (host False False False mps0))) = []"
  using unavailable_noop [of "host False False False mps0"]
  by (simp add: host_simps accelerator_is_available_def runtime_call_def Let_def)

section \<open>Exceptions\<close>

text \<open>
  C7. None of the three functions catches or replaces an exception: for every input and
  every state of the runtime, each of them stops at the first runtime call that raises
  and raises that very exception, it raises nothing when no runtime call raised, and it
  returns normally only when every call it made returned.
\<close>

theorem exceptions_propagate:
  "propagates rt (get_stream_context inp rt)
   \<and> propagates rt (record_event rt)
   \<and> propagates rt (synchronize rt)"
proof (intro conjI)
  show "propagates rt (get_stream_context inp rt)"
    by (simp add: propagates_def new_calls_def get_stream_context_run Let_def
          split: option.split)
  show "propagates rt (record_event rt)"
    by (simp add: propagates_def new_calls_def record_event_run Let_def split: option.split)
  show "propagates rt (synchronize rt)"
    by (simp add: propagates_def new_calls_def synchronize_run Let_def split: option.split)
qed

theorem exceptions_propagate_witness:
  "get_stream_context (Some cuda0)
       (failing (CudaStream cuda0) ''invalid stream'' (host True False True cuda0))
     = (Inl ''invalid stream'',
        (failing (CudaStream cuda0) ''invalid stream'' (host True False True cuda0))
          \<lparr>calls := [CudaIsAvailable, CudaStream cuda0]\<rparr>)
   \<and> propagates (failing (CudaStream cuda0) ''invalid stream'' (host True False True cuda0))
       (get_stream_context (Some cuda0)
          (failing (CudaStream cuda0) ''invalid stream'' (host True False True cuda0)))
   \<and> fst (record_event
            (failing (StreamRecordEvent cuda0) ''device lost'' (host True False True cuda0)))
      = Inl ''device lost''
   \<and> fst (synchronize
            (failing (StreamSynchronize cuda0) ''device lost'' (host True False True cuda0)))
      = Inl ''device lost''"
  using exceptions_propagate [of
      "failing (CudaStream cuda0) ''invalid stream'' (host True False True cuda0)"
      "Some cuda0"]
  by (simp add: failing_def host_simps stream_simps get_stream_context_run record_event_run
        synchronize_run)

section \<open>The context as a scope\<close>

lemma with_scope_unfold:
  "with_scope ctx body rt =
     (fst (body (snd (ctx_enter ctx rt))),
      ctx_exit (fst (ctx_enter ctx rt)) (snd (body (snd (ctx_enter ctx rt)))))"
  by (simp add: with_scope_def split: prod.split)

text \<open>
  C8, counterexample. For the input \<^verbatim>\<open>None\<close> the function returns the no-op context, and a
  scope under it does not restore the prior current stream on every exit path: on a
  host whose current stream is \<open>mps0\<close>, a body that makes \<open>xpu0\<close> current and then raises
  leaves \<open>xpu0\<close> current after the scope, and the only switch in the history is the
  body's, so that no restoration has taken place.
\<close>

theorem nullcontext_scope_restores_nothing:
  "get_stream_context None (host False False False mps0)
     = (Inr NullContext, host False False False mps0)
   \<and> current (host False False False mps0) = mps0
   \<and> fst (with_scope NullContext (switching_body xpu0) (host False False False mps0))
       = Inl ''boom''
   \<and> current (snd (with_scope NullContext (switching_body xpu0)
                      (host False False False mps0))) = xpu0
   \<and> xpu0 \<noteq> mps0
   \<and> switches (snd (with_scope NullContext (switching_body xpu0)
                       (host False False False mps0))) = [xpu0]"
  by (simp add: get_stream_context_run host_simps with_scope_unfold switching_body_def
        set_current_def xpu0_def mps0_def)

text \<open>
  C8, amended. The context that \<^verbatim>\<open>get_stream_context\<close> returns can be used as a scope
  around any body, entered in any state of the runtime, and the outcome of the scope is
  the outcome of the body, an exception included. For a stream of type \<^verbatim>\<open>"cuda"\<close> or
  \<^verbatim>\<open>"xpu"\<close> whose family is reported available (the construction of the context not
  raising), the function returns a context under which the body runs with the given
  stream current, and leaving the scope makes the stream current that was current
  before it, whatever the body did and on every exit path, by exactly one switch. For
  \<^verbatim>\<open>None\<close>, for an unrecognised device type and for a family reported unavailable, the
  function returns a context whose scope is its body and nothing more: nothing is
  redirected on entering and nothing is restored on leaving.
\<close>

theorem scoped_context_restores:
  "((type' (device s) = ''cuda'' \<and> fst (cuda_is_available rt) = Inr True
       \<and> faults rt (CudaStream s) = None)
    \<or> (type' (device s) = ''xpu'' \<and> fst (xpu_is_available rt) = Inr True
       \<and> faults rt (XpuStream s) = None)
    \<longrightarrow> (case fst (get_stream_context (Some s) rt) of
           Inl e \<Rightarrow> False
         | Inr ctx \<Rightarrow>
             fst (with_scope ctx body rt1) = fst (body (set_current s rt1))
             \<and> snd (with_scope ctx body rt1)
                 = set_current (current rt1) (snd (body (set_current s rt1)))
             \<and> current (set_current s rt1) = s
             \<and> current (snd (with_scope ctx body rt1)) = current rt1
             \<and> switches (snd (with_scope ctx body rt1))
                 = switches (snd (body (set_current s rt1))) @ [current rt1]))
   \<and> (inp = None
       \<or> inp = Some s'
          \<and> (type' (device s') \<noteq> ''cuda'' \<and> type' (device s') \<noteq> ''xpu''
              \<or> type' (device s') = ''cuda'' \<and> fst (cuda_is_available rt') = Inr False
              \<or> type' (device s') = ''xpu'' \<and> fst (xpu_is_available rt') = Inr False)
    \<longrightarrow> (case fst (get_stream_context inp rt') of
           Inl e \<Rightarrow> False
         | Inr ctx \<Rightarrow> with_scope ctx body' rt1' = body' rt1'))"
proof (intro conjI impI)
  assume "(type' (device s) = ''cuda'' \<and> fst (cuda_is_available rt) = Inr True
       \<and> faults rt (CudaStream s) = None)
    \<or> (type' (device s) = ''xpu'' \<and> fst (xpu_is_available rt) = Inr True
       \<and> faults rt (XpuStream s) = None)"
  then have "fst (get_stream_context (Some s) rt) = Inr (CudaStreamContext s)
      \<or> fst (get_stream_context (Some s) rt) = Inr (XpuStreamContext s)"
    by (auto simp: get_stream_context_run
          dest!: cuda_is_available_reports xpu_is_available_reports)
  then show "case fst (get_stream_context (Some s) rt) of
           Inl e \<Rightarrow> False
         | Inr ctx \<Rightarrow>
             fst (with_scope ctx body rt1) = fst (body (set_current s rt1))
             \<and> snd (with_scope ctx body rt1)
                 = set_current (current rt1) (snd (body (set_current s rt1)))
             \<and> current (set_current s rt1) = s
             \<and> current (snd (with_scope ctx body rt1)) = current rt1
             \<and> switches (snd (with_scope ctx body rt1))
                 = switches (snd (body (set_current s rt1))) @ [current rt1]"
    by (auto simp: with_scope_unfold set_current_def)
next
  assume "inp = None
       \<or> inp = Some s'
          \<and> (type' (device s') \<noteq> ''cuda'' \<and> type' (device s') \<noteq> ''xpu''
              \<or> type' (device s') = ''cuda'' \<and> fst (cuda_is_available rt') = Inr False
              \<or> type' (device s') = ''xpu'' \<and> fst (xpu_is_available rt') = Inr False)"
  then have "fst (get_stream_context inp rt') = Inr NullContext"
    by (auto simp: get_stream_context_run
          dest!: cuda_is_available_reports xpu_is_available_reports)
  then show "case fst (get_stream_context inp rt') of
           Inl e \<Rightarrow> False
         | Inr ctx \<Rightarrow> with_scope ctx body' rt1' = body' rt1'"
    by (simp add: with_scope_unfold)
qed

theorem scoped_context_restores_witness:
  "fst (cuda_is_available (host True False True mps0)) = Inr True
   \<and> fst (get_stream_context (Some cuda0) (host True False True mps0))
       = Inr (CudaStreamContext cuda0)
   \<and> fst (with_scope (CudaStreamContext cuda0) (switching_body xpu0) (host True False True mps0))
       = Inl ''boom''
   \<and> current (snd (with_scope (CudaStreamContext cuda0) (switching_body xpu0)
                      (host True False True mps0))) = mps0
   \<and> switches (snd (with_scope (CudaStreamContext cuda0) (switching_body xpu0)
                      (host True False True mps0))) = [cuda0, xpu0, mps0]
   \<and> fst (get_stream_context (Some cuda0) (host False True True mps0)) = Inr NullContext
   \<and> with_scope NullContext (switching_body xpu0) (host True False True mps0)
       = switching_body xpu0 (host True False True mps0)"
  using scoped_context_restores [of cuda0 "host True False True mps0"
      "switching_body xpu0" "host True False True mps0"
      "Some cuda0" cuda0 "host False True True mps0"
      "switching_body xpu0" "host True False True mps0"]
  by (simp add: get_stream_context_run host_simps stream_simps with_scope_unfold
        switching_body_def set_current_def cuda_is_available_def runtime_call_def Let_def)

section \<open>Totality of the dispatch\<close>

text \<open>
  C9. For every input and every state of the runtime, \<^verbatim>\<open>get_stream_context\<close> has an
  outcome, and the runtime differs from the state before only by the calls logged:
  nothing is recorded, synchronised, allocated or switched. For \<^verbatim>\<open>None\<close> no call is made
  at all, not even an availability query, and the no-op context is returned. For a
  stream the calls are at most the availability query of the stream's family followed
  by the construction of that family's context for this stream, and the construction is
  called only if the family is available. Whenever no call made has raised, the outcome
  is a context (never an absent value), and an exception is the one of the last call.
\<close>

theorem get_stream_context_total:
  "(let out = get_stream_context inp rt; cs = new_calls rt (snd out)
    in snd out = rt\<lparr>calls := calls rt @ cs\<rparr>
       \<and> (inp = None \<longrightarrow> cs = [] \<and> fst out = Inr NullContext)
       \<and> (\<forall>s. inp = Some s \<longrightarrow>
             cs \<in> set [[], [CudaIsAvailable], [CudaIsAvailable, CudaStream s],
                        [XpuIsAvailable], [XpuIsAvailable, XpuStream s]]
             \<and> (CudaStream s \<in> set cs \<longrightarrow> cuda_available rt \<and> type' (device s) = ''cuda'')
             \<and> (XpuStream s \<in> set cs \<longrightarrow> xpu_available rt \<and> type' (device s) = ''xpu''))
       \<and> ((\<forall>c \<in> set cs. faults rt c = None) \<longrightarrow> (\<exists>ctx. fst out = Inr ctx))
       \<and> (\<forall>e. fst out = Inl e \<longrightarrow> cs \<noteq> [] \<and> faults rt (last cs) = Some e))"
proof (cases inp)
  case None
  then show ?thesis
    by (simp add: get_stream_context_run new_calls_def Let_def)
next
  case (Some s)
  show ?thesis
  proof (cases "type' (device s) = ''cuda''")
    case True
    with Some show ?thesis
      by (cases "faults rt CudaIsAvailable"; cases "cuda_available rt";
          cases "faults rt (CudaStream s)")
         (simp_all add: get_stream_context_run new_calls_def Let_def)
  next
    case False
    with Some show ?thesis
      by (cases "type' (device s) = ''xpu''"; cases "faults rt XpuIsAvailable";
          cases "xpu_available rt"; cases "faults rt (XpuStream s)")
         (simp_all add: get_stream_context_run new_calls_def Let_def)
  qed
qed

theorem get_stream_context_total_witness:
  "new_calls (host False True True xpu0)
      (snd (get_stream_context (Some xpu0) (host False True True xpu0)))
     = [XpuIsAvailable, XpuStream xpu0]
   \<and> xpu_available (host False True True xpu0)
   \<and> fst (get_stream_context (Some xpu0) (host False True True xpu0))
       = Inr (XpuStreamContext xpu0)
   \<and> new_calls (host False True True xpu0)
        (snd (get_stream_context None (host False True True xpu0))) = []"
  using get_stream_context_total [of "Some xpu0" "host False True True xpu0"]
    get_stream_context_total [of None "host False True True xpu0"]
  by (simp add: get_stream_context_run new_calls_def host_simps stream_simps Let_def)

section \<open>No state between calls\<close>

lemma same_answers_refl: "same_answers rt rt"
  by (simp add: same_answers_def)

lemma same_answers_trans: "same_answers a b \<Longrightarrow> same_answers b c \<Longrightarrow> same_answers a c"
  by (simp add: same_answers_def)

text \<open>No function of the module changes what the runtime answers.\<close>

lemma get_stream_context_same_answers: "same_answers rt (snd (get_stream_context inp rt))"
  by (simp add: same_answers_def get_stream_context_run split: option.split)

lemma record_event_same_answers: "same_answers rt (snd (record_event rt))"
  by (simp add: same_answers_def record_event_run split: option.split)

lemma synchronize_same_answers: "same_answers rt (snd (synchronize rt))"
  by (simp add: same_answers_def synchronize_run split: option.split)

lemma snd_rt_bind_ret: "snd (rt_bind m (\<lambda>v. ret (f v)) rt) = snd (m rt)"
  by (simp add: rt_bind_def ret_def split: prod.split sum.split)

lemma fst_rt_bind_ret: "fst (rt_bind m (\<lambda>v. ret (f v)) rt) = map_sum id f (fst (m rt))"
  by (simp add: rt_bind_def ret_def split: prod.split sum.split)

lemma run_op_same_answers: "same_answers rt (snd (run_op q rt))"
  by (cases q)
     (simp_all add: snd_rt_bind_ret get_stream_context_same_answers
        record_event_same_answers synchronize_same_answers)

lemma run_ops_same_answers: "same_answers rt (run_ops ps rt)"
proof (induction ps arbitrary: rt)
  case Nil
  show ?case by (simp add: same_answers_refl)
next
  case (Cons p ps)
  show ?case
    using same_answers_trans [OF run_op_same_answers Cons.IH] by simp
qed

text \<open>What a call returns and asks of the runtime is fixed by the runtime's answers.\<close>

lemma get_stream_context_determined:
  assumes "same_answers rt rt'"
  shows "fst (get_stream_context inp rt') = fst (get_stream_context inp rt)
     \<and> new_calls rt' (snd (get_stream_context inp rt'))
       = new_calls rt (snd (get_stream_context inp rt))"
  using assms unfolding same_answers_def
  by (simp add: get_stream_context_run new_calls_def split: option.split)

lemma record_event_determined:
  assumes "same_answers rt rt'"
  shows "fst (record_event rt') = fst (record_event rt)
     \<and> new_calls rt' (snd (record_event rt')) = new_calls rt (snd (record_event rt))"
  using assms unfolding same_answers_def
  by (simp add: record_event_run new_calls_def split: option.split)

lemma synchronize_determined:
  assumes "same_answers rt rt'"
  shows "fst (synchronize rt') = fst (synchronize rt)
     \<and> new_calls rt' (snd (synchronize rt')) = new_calls rt (snd (synchronize rt))"
  using assms unfolding same_answers_def
  by (simp add: synchronize_run new_calls_def split: option.split)

lemma run_op_determined:
  assumes "same_answers rt rt'"
  shows "fst (run_op q rt') = fst (run_op q rt)
     \<and> new_calls rt' (snd (run_op q rt')) = new_calls rt (snd (run_op q rt))"
  by (cases q)
     (simp_all add: snd_rt_bind_ret fst_rt_bind_ret get_stream_context_determined [OF assms]
        record_event_determined [OF assms] synchronize_determined [OF assms])

text \<open>The allocator stays ahead of every recorded event.\<close>

lemma record_event_allocated: "allocated rt \<Longrightarrow> allocated (snd (record_event rt))"
  by (auto simp: allocated_def list_all_iff record_event_run split: option.split)

lemma get_stream_context_allocated:
  "allocated rt \<Longrightarrow> allocated (snd (get_stream_context inp rt))"
  by (simp add: allocated_def get_stream_context_run split: option.split)

lemma synchronize_allocated: "allocated rt \<Longrightarrow> allocated (snd (synchronize rt))"
  by (simp add: allocated_def synchronize_run split: option.split)

lemma run_op_allocated: "allocated rt \<Longrightarrow> allocated (snd (run_op q rt))"
  by (cases q)
     (simp_all add: snd_rt_bind_ret record_event_allocated get_stream_context_allocated
        synchronize_allocated)

lemma run_ops_allocated: "allocated rt \<Longrightarrow> allocated (run_ops ps rt)"
  by (induction ps arbitrary: rt) (simp_all add: run_op_allocated)

lemma record_event_fresh:
  assumes "allocated rt"
  shows "recorded (snd (record_event rt)) = recorded rt
     \<or> (\<exists>e. recorded (snd (record_event rt)) = recorded rt @ [(current rt, e)]
           \<and> e \<notin> snd ` set (recorded rt)
           \<and> (e = CudaEvent True (next_event rt)
                 \<and> NewCudaEvent True \<in> set (new_calls rt (snd (record_event rt)))
               \<or> e = XpuEvent (next_event rt)
                 \<and> NewXpuEvent \<in> set (new_calls rt (snd (record_event rt))))
           \<and> next_event (snd (record_event rt)) = Suc (next_event rt))"
proof -
  have fresh: "e \<notin> snd ` set (recorded rt)" if "event_id e = next_event rt" for e
    using assms that by (fastforce simp: allocated_def list_all_iff)
  have "CudaEvent True (next_event rt) \<notin> snd ` set (recorded rt)"
    and "XpuEvent (next_event rt) \<notin> snd ` set (recorded rt)"
    by (simp_all add: fresh)
  then show ?thesis
    by (simp add: record_event_run new_calls_def split: option.split)
qed

text \<open>
  C10. The module keeps no state of its own: the only state a call sees is the
  runtime's. After any sequence of earlier calls of the three functions, a call returns
  what it would have returned without them and asks the runtime the same calls in the
  same order. Every invocation of \<^verbatim>\<open>record_event\<close> that records an event has called a
  constructor in that invocation (\<^verbatim>\<open>torch.cuda.Event(interprocess=True)\<close> or
  \<^verbatim>\<open>torch.xpu.Event()\<close>), and the event recorded is that new object: it is none of the
  events recorded before. The function returns no value, so nothing of the event
  remains with the module.
\<close>

theorem shim_stateless:
  "fst (run_op q (run_ops ps rt)) = fst (run_op q rt)
   \<and> new_calls (run_ops ps rt) (snd (run_op q (run_ops ps rt)))
       = new_calls rt (snd (run_op q rt))
   \<and> (allocated rt \<longrightarrow>
        (let rt1 = run_ops ps rt; rt2 = snd (record_event rt1)
         in allocated rt2
            \<and> (recorded rt2 = recorded rt1
                \<or> (\<exists>e. recorded rt2 = recorded rt1 @ [(current rt1, e)]
                      \<and> e \<notin> snd ` set (recorded rt1)
                      \<and> (e = CudaEvent True (next_event rt1)
                            \<and> NewCudaEvent True \<in> set (new_calls rt1 rt2)
                          \<or> e = XpuEvent (next_event rt1)
                            \<and> NewXpuEvent \<in> set (new_calls rt1 rt2))
                      \<and> next_event rt2 = Suc (next_event rt1)))))"
  using run_op_determined [OF run_ops_same_answers, of q ps rt]
    record_event_fresh [OF run_ops_allocated, of rt ps]
    record_event_allocated [OF run_ops_allocated, of rt ps]
  by (simp add: Let_def)

theorem shim_stateless_witness:
  "allocated (host True False True cuda0)
   \<and> recorded (run_ops [RecordEvent, GetStreamContext (Some cuda0), Synchronize, RecordEvent]
                 (host True False True cuda0))
       = [(cuda0, CudaEvent True 0), (cuda0, CudaEvent True 1)]
   \<and> fst (run_op (GetStreamContext (Some cuda0))
            (run_ops [RecordEvent, Synchronize] (host True False True cuda0)))
       = Inr (Context (CudaStreamContext cuda0))"
  using shim_stateless [of "GetStreamContext (Some cuda0)" "[RecordEvent, Synchronize]"
      "host True False True cuda0"]
  by (simp add: allocated_def host_simps stream_simps rt_bind_def ret_def
        get_stream_context_run record_event_run synchronize_run)

end
